theory Spec2Isabelle
  imports Main
begin

section \<open>Pre-assessment webhook receiver (preassessment_webhook.py)\<close>

text \<open>
  The service keeps one module-level list, \<^verbatim>\<open>received_webhooks\<close>, and offers five
  routes over it. The model threads that list (and the records written to the logger)
  through every handler as an explicit state, and returns the HTTP response next to
  the new state.
\<close>

subsection \<open>JSON values\<close>

text \<open>
  A request body after \<^verbatim>\<open>json.loads\<close>, and every dict a handler returns. An object is an
  association list in the order the source writes its keys; a float is kept as its
  literal.
\<close>

datatype json =
    JNull
  | JBool bool
  | JInt int
  | JFloat string
  | JStr string
  | JArr "json list"
  | JObj "(string \<times> json) list"

text \<open>Looking a key up in a parsed object: a repeated key keeps its last value.\<close>

definition dict_get :: "(string \<times> json) list \<Rightarrow> string \<Rightarrow> json option" where
  "dict_get kvs k = map_of (rev kvs) k"

subsection \<open>Formatting a count\<close>

text \<open>\<^verbatim>\<open>f"{count}"\<close> for a list length: the decimal digits, most significant first.\<close>

fun str_nat :: "nat \<Rightarrow> string" where
  "str_nat n =
     (if n < 10 then [''0123456789'' ! n]
      else str_nat (n div 10) @ [''0123456789'' ! (n mod 10)])"

declare str_nat.simps [simp del]

text \<open>Reading such a number back, used to say that a message reports a count exactly.\<close>

definition digit_val :: "char \<Rightarrow> nat" where
  "digit_val c = of_char c - 48"

definition int_of_str :: "string \<Rightarrow> nat" where
  "int_of_str s = foldl (\<lambda>acc c. 10 * acc + digit_val c) 0 s"

subsection \<open>The payload model\<close>

text \<open>
  \<^verbatim>\<open>class PreassessmentWebhookPayload(BaseModel)\<close>: three fields annotated \<^verbatim>\<open>str\<close>, none
  with a default, none with a length constraint.
\<close>

record PreassessmentWebhookPayload =
  organization_id :: string
  preassessment_id :: string
  regulation_id :: string

text \<open>
  What lies outside the module, per request: how the validation library treats a value
  that is not a string in a \<^verbatim>\<open>str\<close> field (\<open>None\<close>: rejected; \<open>Some s\<close>: coerced to
  \<open>s\<close>), what the successive calls of \<^verbatim>\<open>datetime.utcnow().isoformat()\<close> return (the
  handler makes three, numbered 0, 1, 2), and whether a statement of the handler's
  \<^verbatim>\<open>try\<close> block raises an \<^verbatim>\<open>Exception\<close> (the statement's position, and \<^verbatim>\<open>str(e)\<close>).
\<close>

record env =
  coerce_str :: "json \<Rightarrow> string option"
  utcnow_isoformat :: "nat \<Rightarrow> string"
  raises :: "(nat \<times> string) option"

datatype error_kind = Missing | StringType | ModelType

type_synonym validation_error = "string list \<times> error_kind"

text \<open>One \<^verbatim>\<open>str\<close> field of the body: required, a string is taken as it is.\<close>

definition str_field ::
  "env \<Rightarrow> (string \<times> json) list \<Rightarrow> string \<Rightarrow> validation_error + string" where
  "str_field e obj k =
     (case dict_get obj k of
        None \<Rightarrow> Inl ([''body'', k], Missing)
      | Some v \<Rightarrow>
          (case v of
             JStr s \<Rightarrow> Inr s
           | _ \<Rightarrow>
               (case coerce_str e v of
                  Some s \<Rightarrow> Inr s
                | None \<Rightarrow> Inl ([''body'', k], StringType))))"

definition field_errors :: "validation_error + string \<Rightarrow> validation_error list" where
  "field_errors r = (case r of Inl err \<Rightarrow> [err] | Inr _ \<Rightarrow> [])"

text \<open>
  The body parameter \<^verbatim>\<open>payload: PreassessmentWebhookPayload\<close>: the body has to be an
  object, every field is checked and all the failures are reported together; keys the
  model does not declare are ignored.
\<close>

definition validate_payload ::
  "env \<Rightarrow> json \<Rightarrow> validation_error list + PreassessmentWebhookPayload" where
  "validate_payload e body =
     (case body of
        JObj obj \<Rightarrow>
          (let ro = str_field e obj ''organization_id'';
               rp = str_field e obj ''preassessment_id'';
               rr = str_field e obj ''regulation_id''
           in case (ro, rp, rr) of
                (Inr a, Inr b, Inr c) \<Rightarrow>
                  Inr \<lparr>organization_id = a, preassessment_id = b, regulation_id = c\<rparr>
              | _ \<Rightarrow> Inl (field_errors ro @ field_errors rp @ field_errors rr))
      | _ \<Rightarrow> Inl [([''body''], ModelType)])"

subsection \<open>State and responses\<close>

datatype level = INFO | ERROR

record world =
  received_webhooks :: "json list"
  logged :: "(level \<times> string) list"

definition init_world :: world where
  "init_world = \<lparr>received_webhooks = [], logged = []\<rparr>"

text \<open>
  A handler's returned dict is sent with status 200; a body that fails validation never
  reaches the handler and is answered 422 with the list of failures; an
  \<^verbatim>\<open>HTTPException\<close> carries its own status and detail.
\<close>

datatype response =
    JSONResponse nat json
  | RequestValidationError "validation_error list"
  | HTTPException nat string

fun status_code :: "response \<Rightarrow> nat" where
  "status_code (JSONResponse c _) = c"
| "status_code (RequestValidationError _) = 422"
| "status_code (HTTPException c _) = c"

subsection \<open>The statements of the try block\<close>

datatype stmt = LoggerInfo string | Append json | Build

fun step :: "stmt \<Rightarrow> world \<Rightarrow> world" where
  "step (LoggerInfo m) w = w\<lparr>logged := logged w @ [(INFO, m)]\<rparr>"
| "step (Append r) w = w\<lparr>received_webhooks := received_webhooks w @ [r]\<rparr>"
| "step Build w = w"

definition logger_error :: "string \<Rightarrow> world \<Rightarrow> world" where
  "logger_error m w = w\<lparr>logged := logged w @ [(ERROR, m)]\<rparr>"

text \<open>
  A block of statements under \<^verbatim>\<open>try\<close>: when statement \<open>i\<close> raises, the statements before
  it have had their effect and the rest are skipped.
\<close>

definition exec :: "(nat \<times> string) option \<Rightarrow> stmt list \<Rightarrow> world \<Rightarrow> string option \<times> world" where
  "exec f ss w =
     (case f of
        None \<Rightarrow> (None, fold step ss w)
      | Some (i, msg) \<Rightarrow>
          if i < length ss then (Some msg, fold step (take i ss) w)
          else (None, fold step ss w))"

definition rule_line :: string where
  "rule_line = replicate 80 (CHR ''='')"

text \<open>Lines 78 to 83: the dict that is stored.\<close>

definition webhook_data :: "string \<Rightarrow> PreassessmentWebhookPayload \<Rightarrow> json" where
  "webhook_data t p =
     JObj [(''timestamp'', JStr t),
           (''organization_id'', JStr (organization_id p)),
           (''preassessment_id'', JStr (preassessment_id p)),
           (''regulation_id'', JStr (regulation_id p))]"

text \<open>Lines 69 to 100, one entry per statement, positions 0 to 12.\<close>

definition try_body :: "env \<Rightarrow> PreassessmentWebhookPayload \<Rightarrow> stmt list" where
  "try_body e p =
     [LoggerInfo rule_line,
      LoggerInfo ''PRE-ASSESSMENT WEBHOOK RECEIVED'',
      LoggerInfo rule_line,
      LoggerInfo (''Timestamp: '' @ utcnow_isoformat e 0),
      LoggerInfo (''Organization ID: '' @ organization_id p),
      LoggerInfo (''Pre-assessment ID: '' @ preassessment_id p),
      LoggerInfo (''Regulation ID: '' @ regulation_id p),
      Build,
      Append (webhook_data (utcnow_isoformat e 1) p),
      LoggerInfo rule_line,
      LoggerInfo ''WEBHOOK RECEIVED SUCCESSFULLY'',
      LoggerInfo rule_line,
      Build]"

text \<open>Lines 91 to 100: the dict that is returned.\<close>

definition success_body :: "string \<Rightarrow> PreassessmentWebhookPayload \<Rightarrow> json" where
  "success_body t p =
     JObj [(''status'', JStr ''success''),
           (''message'', JStr ''Webhook received successfully''),
           (''received_at'', JStr t),
           (''payload'',
              JObj [(''organization_id'', JStr (organization_id p)),
                    (''preassessment_id'', JStr (preassessment_id p)),
                    (''regulation_id'', JStr (regulation_id p))])]"

subsection \<open>The handlers\<close>

definition root :: "world \<Rightarrow> response \<times> world" where
  "root w =
     (JSONResponse 200
        (JObj [(''message'', JStr ''Pre-assessment Webhook Receiver''),
               (''version'', JStr ''1.0.0''),
               (''endpoint'', JStr ''POST /webhook/preassessment'')]), w)"

definition receive_preassessment_webhook ::
  "env \<Rightarrow> PreassessmentWebhookPayload \<Rightarrow> world \<Rightarrow> response \<times> world" where
  "receive_preassessment_webhook e p w =
     (case exec (raises e) (try_body e p) w of
        (None, w') \<Rightarrow> (JSONResponse 200 (success_body (utcnow_isoformat e 2) p), w')
      | (Some msg, w') \<Rightarrow>
          (HTTPException 500 (''Failed to process webhook: '' @ msg),
           logger_error (''Error processing webhook: '' @ msg) w'))"

definition get_received_webhooks :: "world \<Rightarrow> response \<times> world" where
  "get_received_webhooks w =
     (JSONResponse 200
        (JObj [(''total_received'', JInt (int (length (received_webhooks w)))),
               (''webhooks'', JArr (received_webhooks w))]), w)"

definition clear_received_webhooks :: "world \<Rightarrow> response \<times> world" where
  "clear_received_webhooks w =
     (let count = length (received_webhooks w);
          w' = w\<lparr>received_webhooks := []\<rparr>
      in (JSONResponse 200
            (JObj [(''status'', JStr ''success''),
                   (''message'', JStr (''Cleared '' @ str_nat count @ '' webhooks''))]), w'))"

definition health_check :: "world \<Rightarrow> response \<times> world" where
  "health_check w =
     (JSONResponse 200
        (JObj [(''status'', JStr ''healthy''),
               (''webhooks_received'', JInt (int (length (received_webhooks w))))]), w)"

subsection \<open>Routing\<close>

datatype request =
    GetRoot
  | PostWebhookPreassessment env json
  | GetWebhookReceived
  | DeleteWebhookReceived
  | GetHealth

fun handle :: "request \<Rightarrow> world \<Rightarrow> response \<times> world" where
  "handle GetRoot w = root w"
| "handle (PostWebhookPreassessment e body) w =
     (case validate_payload e body of
        Inl errs \<Rightarrow> (RequestValidationError errs, w)
      | Inr p \<Rightarrow> receive_preassessment_webhook e p w)"
| "handle GetWebhookReceived w = get_received_webhooks w"
| "handle DeleteWebhookReceived w = clear_received_webhooks w"
| "handle GetHealth w = health_check w"

text \<open>A run of the service: the requests one after the other, from a given state.\<close>

definition run :: "request list \<Rightarrow> world \<Rightarrow> world" where
  "run reqs w = fold (\<lambda>r s. snd (handle r s)) reqs w"

subsection \<open>Reading responses and records\<close>

text \<open>A top-level key of a JSON response; nothing for the other responses.\<close>

definition json_field :: "response \<Rightarrow> string \<Rightarrow> json option" where
  "json_field r k =
     (case r of
        JSONResponse _ (JObj kvs) \<Rightarrow> dict_get kvs k
      | _ \<Rightarrow> None)"

text \<open>A key of a stored record.\<close>

definition record_field :: "json \<Rightarrow> string \<Rightarrow> json option" where
  "record_field r k = (case r of JObj kvs \<Rightarrow> dict_get kvs k | _ \<Rightarrow> None)"

text \<open>The records a block of statements appends, in order.\<close>

definition appended :: "stmt list \<Rightarrow> json list" where
  "appended ss = concat (map (\<lambda>s. case s of Append r \<Rightarrow> [r] | _ \<Rightarrow> []) ss)"



text \<open>
  The record invariant in the data model's words: the three identifiers are present as
  non-empty strings and the record carries its timestamp.
\<close>

definition nonempty_str :: "json option \<Rightarrow> bool" where
  "nonempty_str v = (case v of Some (JStr s) \<Rightarrow> s \<noteq> [] | _ \<Rightarrow> False)"

definition is_str :: "json option \<Rightarrow> bool" where
  "is_str v = (case v of Some (JStr s) \<Rightarrow> True | _ \<Rightarrow> False)"

definition record_nonempty :: "json \<Rightarrow> bool" where
  "record_nonempty r =
     (nonempty_str (record_field r ''organization_id'') \<and>
      nonempty_str (record_field r ''preassessment_id'') \<and>
      nonempty_str (record_field r ''regulation_id'') \<and>
      is_str (record_field r ''timestamp''))"

text \<open>The invariant the handlers keep: the four keys hold strings.\<close>

definition record_ok :: "json \<Rightarrow> bool" where
  "record_ok r =
     (is_str (record_field r ''organization_id'') \<and>
      is_str (record_field r ''preassessment_id'') \<and>
      is_str (record_field r ''regulation_id'') \<and>
      is_str (record_field r ''timestamp''))"

subsection \<open>Sample requests\<close>

text \<open>
  A validation library that coerces nothing, a clock whose three readings differ, and
  no failure.
\<close>

definition sample_clock :: "nat \<Rightarrow> string" where
  "sample_clock k =
     (if k = 0 then ''2024-05-01T10:00:00.000100''
      else if k = 1 then ''2024-05-01T10:00:00.000200''
      else ''2024-05-01T10:00:00.000300'')"

definition sample_env :: env where
  "sample_env = \<lparr>coerce_str = (\<lambda>v. None), utcnow_isoformat = sample_clock, raises = None\<rparr>"



definition sample_obj :: "(string \<times> json) list" where
  "sample_obj =
     [(''organization_id'', JStr ''org1''),
      (''preassessment_id'', JStr ''pa1''),
      (''regulation_id'', JStr ''reg1'')]"

definition sample_payload :: PreassessmentWebhookPayload where
  "sample_payload =
     \<lparr>organization_id = ''org1'', preassessment_id = ''pa1'', regulation_id = ''reg1''\<rparr>"

definition second_obj :: "(string \<times> json) list" where
  "second_obj =
     [(''organization_id'', JStr ''org2''),
      (''preassessment_id'', JStr ''pa2''),
      (''regulation_id'', JStr ''reg2'')]"

definition second_payload :: PreassessmentWebhookPayload where
  "second_payload =
     \<lparr>organization_id = ''org2'', preassessment_id = ''pa2'', regulation_id = ''reg2''\<rparr>"



definition blank_obj :: "(string \<times> json) list" where
  "blank_obj =
     [(''organization_id'', JStr []),
      (''preassessment_id'', JStr ''pa1''),
      (''regulation_id'', JStr ''reg1'')]"

section \<open>Properties\<close>

subsection \<open>Counts as text\<close>


lemma str_nat_2: "str_nat 2 = ''2''"
  by (simp add: str_nat.simps)

lemma digit_val_digit: "d < 10 \<Longrightarrow> digit_val (''0123456789'' ! d) = d"
proof -
  assume "d < 10"
  then have "d \<in> {0,1,2,3,4,5,6,7,8,9}" by auto
  then show ?thesis by (auto simp: digit_val_def)
qed

lemma int_of_str_snoc: "int_of_str (s @ [c]) = 10 * int_of_str s + digit_val c"
  by (simp add: int_of_str_def)

lemma int_of_str_str_nat: "int_of_str (str_nat n) = n"
proof (induction n rule: str_nat.induct)
  case (1 n)
  show ?case
  proof (cases "n < 10")
    case True
    then show ?thesis
      using digit_val_digit [of n] by (simp add: str_nat.simps [of n] int_of_str_def)
  next
    case False
    with 1 have ih: "int_of_str (str_nat (n div 10)) = n div 10" by simp
    have "n mod 10 < 10" by simp
    then have "digit_val (''0123456789'' ! (n mod 10)) = n mod 10" by (rule digit_val_digit)
    with False ih show ?thesis
      by (simp add: str_nat.simps [of n] int_of_str_snoc)
  qed
qed

subsection \<open>What the try block does to the store\<close>

lemma fold_step_store:
  "received_webhooks (fold step ss w) = received_webhooks w @ appended ss"
proof (induction ss arbitrary: w)
  case Nil
  show ?case by (simp add: appended_def)
next
  case (Cons s ss)
  show ?case by (cases s) (simp_all add: Cons.IH appended_def)
qed

lemma length_try_body: "length (try_body e p) = 13"
  by (simp add: try_body_def)

lemma appended_try_body:
  "appended (try_body e p) = [webhook_data (utcnow_isoformat e 1) p]"
  by (simp add: try_body_def appended_def)

lemma below_13:
  "i < (13::nat) \<Longrightarrow>
     i = 0 \<or> i = 1 \<or> i = 2 \<or> i = 3 \<or> i = 4 \<or> i = 5 \<or> i = 6 \<or> i = 7 \<or> i = 8 \<or>
     i = 9 \<or> i = 10 \<or> i = 11 \<or> i = 12"
  by arith

lemma appended_take_try_body:
  assumes "i < 13"
  shows "appended (take i (try_body e p)) =
           (if i \<le> 8 then [] else [webhook_data (utcnow_isoformat e 1) p])"
proof -
  from assms have
    "i = 0 \<or> i = 1 \<or> i = 2 \<or> i = 3 \<or> i = 4 \<or> i = 5 \<or> i = 6 \<or> i = 7 \<or> i = 8 \<or>
     i = 9 \<or> i = 10 \<or> i = 11 \<or> i = 12"
    by (rule below_13)
  then show ?thesis
    by (elim disjE) (simp_all add: try_body_def appended_def)
qed

lemma receive_no_fault:
  assumes "raises e = None"
  shows "fst (receive_preassessment_webhook e p w) =
           JSONResponse 200 (success_body (utcnow_isoformat e 2) p)"
    and "received_webhooks (snd (receive_preassessment_webhook e p w)) =
           received_webhooks w @ [webhook_data (utcnow_isoformat e 1) p]"
  using assms
  by (simp_all add: receive_preassessment_webhook_def exec_def fold_step_store
        appended_try_body)

lemma receive_late_fault:
  assumes "raises e = Some (i, msg)" and "13 \<le> i"
  shows "fst (receive_preassessment_webhook e p w) =
           JSONResponse 200 (success_body (utcnow_isoformat e 2) p)"
    and "received_webhooks (snd (receive_preassessment_webhook e p w)) =
           received_webhooks w @ [webhook_data (utcnow_isoformat e 1) p]"
  using assms
  by (simp_all add: receive_preassessment_webhook_def exec_def fold_step_store
        appended_try_body length_try_body)

lemma receive_fault:
  assumes "raises e = Some (i, msg)" and "i < 13"
  shows "fst (receive_preassessment_webhook e p w) =
           HTTPException 500 (''Failed to process webhook: '' @ msg)"
    and "received_webhooks (snd (receive_preassessment_webhook e p w)) =
           (if i \<le> 8 then received_webhooks w
            else received_webhooks w @ [webhook_data (utcnow_isoformat e 1) p])"
    and "logged (snd (receive_preassessment_webhook e p w)) \<noteq> [] \<and>
         last (logged (snd (receive_preassessment_webhook e p w))) =
           (ERROR, ''Error processing webhook: '' @ msg)"
  using assms
  by (simp_all add: receive_preassessment_webhook_def exec_def fold_step_store
        appended_take_try_body length_try_body logger_error_def)

lemma receive_success:
  assumes "status_code (fst (receive_preassessment_webhook e p w)) = 200"
  shows "fst (receive_preassessment_webhook e p w) =
           JSONResponse 200 (success_body (utcnow_isoformat e 2) p) \<and>
         received_webhooks (snd (receive_preassessment_webhook e p w)) =
           received_webhooks w @ [webhook_data (utcnow_isoformat e 1) p]"
proof (cases "raises e")
  case None
  then show ?thesis by (simp add: receive_no_fault)
next
  case (Some f)
  obtain i msg where f: "f = (i, msg)" by (cases f)
  show ?thesis
  proof (cases "i < 13")
    case True
    with Some f assms show ?thesis by (simp add: receive_fault(1))
  next
    case False
    with Some f show ?thesis by (simp add: receive_late_fault)
  qed
qed

lemma receive_store_grows:
  "take (length (received_webhooks w))
     (received_webhooks (snd (receive_preassessment_webhook e p w))) = received_webhooks w"
proof (cases "raises e")
  case None
  then show ?thesis by (simp add: receive_no_fault)
next
  case (Some f)
  obtain i msg where f: "f = (i, msg)" by (cases f)
  show ?thesis
  proof (cases "i < 13")
    case True
    with Some f show ?thesis by (simp add: receive_fault(2))
  next
    case False
    with Some f show ?thesis by (simp add: receive_late_fault)
  qed
qed

subsection \<open>Validation\<close>

lemma validate_strings:
  assumes "dict_get obj ''organization_id'' = Some (JStr a)"
      and "dict_get obj ''preassessment_id'' = Some (JStr b)"
      and "dict_get obj ''regulation_id'' = Some (JStr c)"
  shows "validate_payload e (JObj obj) =
           Inr \<lparr>organization_id = a, preassessment_id = b, regulation_id = c\<rparr>"
  using assms by (simp add: validate_payload_def str_field_def)




subsection \<open>Ingestion\<close>

text \<open>
  C1. A body whose three fields are strings, posted in a run where no statement of the
  handler raises, is answered 200; the store grows by exactly one record; and the last
  element that the retrieval route returns afterwards holds the three fields of the body
  and the clock reading taken for the record.
\<close>

theorem post_valid_payload_is_stored:
  assumes "dict_get obj ''organization_id'' = Some (JStr a)"
      and "dict_get obj ''preassessment_id'' = Some (JStr b)"
      and "dict_get obj ''regulation_id'' = Some (JStr c)"
      and "raises e = None"
  shows
    "status_code (fst (handle (PostWebhookPreassessment e (JObj obj)) w)) = 200 \<and>
     length (received_webhooks (snd (handle (PostWebhookPreassessment e (JObj obj)) w))) =
       length (received_webhooks w) + 1 \<and>
     fst (handle GetWebhookReceived (snd (handle (PostWebhookPreassessment e (JObj obj)) w))) =
       JSONResponse 200
         (JObj [(''total_received'', JInt (int (length (received_webhooks w)) + 1)),
                (''webhooks'',
                 JArr (received_webhooks
                         (snd (handle (PostWebhookPreassessment e (JObj obj)) w))))]) \<and>
     received_webhooks (snd (handle (PostWebhookPreassessment e (JObj obj)) w)) \<noteq> [] \<and>
     last (received_webhooks (snd (handle (PostWebhookPreassessment e (JObj obj)) w))) =
       JObj [(''timestamp'', JStr (utcnow_isoformat e 1)),
             (''organization_id'', JStr a),
             (''preassessment_id'', JStr b),
             (''regulation_id'', JStr c)]"
proof -
  let ?p = "\<lparr>organization_id = a, preassessment_id = b, regulation_id = c\<rparr>"
  have v: "validate_payload e (JObj obj) = Inr ?p"
    using assms(1-3) by (rule validate_strings)
  have h: "handle (PostWebhookPreassessment e (JObj obj)) w =
             receive_preassessment_webhook e ?p w"
    by (simp add: v)
  show ?thesis
    unfolding h
    by (simp add: receive_no_fault [OF assms(4)] get_received_webhooks_def webhook_data_def)
qed

theorem post_valid_payload_is_stored_witness:
  "dict_get sample_obj ''organization_id'' = Some (JStr ''org1'') \<and>
   dict_get sample_obj ''preassessment_id'' = Some (JStr ''pa1'') \<and>
   dict_get sample_obj ''regulation_id'' = Some (JStr ''reg1'') \<and>
   raises sample_env = None \<and>
   length (received_webhooks
     (snd (handle (PostWebhookPreassessment sample_env (JObj sample_obj)) init_world))) = 1 \<and>
   last (received_webhooks
     (snd (handle (PostWebhookPreassessment sample_env (JObj sample_obj)) init_world))) =
       JObj [(''timestamp'', JStr ''2024-05-01T10:00:00.000200''),
             (''organization_id'', JStr ''org1''),
             (''preassessment_id'', JStr ''pa1''),
             (''regulation_id'', JStr ''reg1'')]"
proof -
  have h1: "dict_get sample_obj ''organization_id'' = Some (JStr ''org1'')"
    by (simp add: dict_get_def sample_obj_def)
  have h2: "dict_get sample_obj ''preassessment_id'' = Some (JStr ''pa1'')"
    by (simp add: dict_get_def sample_obj_def)
  have h3: "dict_get sample_obj ''regulation_id'' = Some (JStr ''reg1'')"
    by (simp add: dict_get_def sample_obj_def)
  have h4: "raises sample_env = None"
    by (simp add: sample_env_def)
  have clk: "utcnow_isoformat sample_env 1 = ''2024-05-01T10:00:00.000200''"
    by (simp add: sample_env_def sample_clock_def)
  have len0: "length (received_webhooks init_world) = 0"
    by (simp add: init_world_def)
  note c = post_valid_payload_is_stored [OF h1 h2 h3 h4, of init_world]
  from c have c1: "length (received_webhooks
     (snd (handle (PostWebhookPreassessment sample_env (JObj sample_obj)) init_world))) = 1"
    unfolding len0 by simp
  from c have c2: "last (received_webhooks
     (snd (handle (PostWebhookPreassessment sample_env (JObj sample_obj)) init_world))) =
       JObj [(''timestamp'', JStr ''2024-05-01T10:00:00.000200''),
             (''organization_id'', JStr ''org1''),
             (''preassessment_id'', JStr ''pa1''),
             (''regulation_id'', JStr ''reg1'')]"
    unfolding clk by blast
  from h1 h2 h3 h4 c1 c2 show ?thesis by blast
qed



subsection \<open>Retrieval, clearing and health\<close>

text \<open>
  C3. Whatever the store holds, the clear route leaves it empty and answers 200 with the
  message "Cleared N webhooks", where N is the decimal text of the number of records the
  store held (reading the text back gives that number); the retrieval route then reports
  a total of 0.
\<close>

theorem clear_empties_and_reports_count:
  "received_webhooks (snd (handle DeleteWebhookReceived w)) = [] \<and>
   snd (handle DeleteWebhookReceived w) = w\<lparr>received_webhooks := []\<rparr> \<and>
   fst (handle DeleteWebhookReceived w) =
     JSONResponse 200
       (JObj [(''status'', JStr ''success''),
              (''message'',
               JStr (''Cleared '' @ str_nat (length (received_webhooks w)) @ '' webhooks''))]) \<and>
   int_of_str (str_nat (length (received_webhooks w))) = length (received_webhooks w) \<and>
   json_field (fst (handle GetWebhookReceived (snd (handle DeleteWebhookReceived w))))
     ''total_received'' = Some (JInt 0)"
  by (simp add: clear_received_webhooks_def get_received_webhooks_def json_field_def
        dict_get_def int_of_str_str_nat)

text \<open>The scenario of the specification: two records stored, then a clear.\<close>

lemma clear_two_records:
  "length (received_webhooks w) = 2 \<Longrightarrow>
   json_field (fst (handle DeleteWebhookReceived w)) ''message'' =
     Some (JStr ''Cleared 2 webhooks'')"
  by (simp add: clear_received_webhooks_def json_field_def dict_get_def str_nat_2)

text \<open>
  C7. In one and the same state, the count of the health route and the total of the
  retrieval route are both the number of records in the store, hence equal.
\<close>

theorem health_count_equals_total_received:
  "json_field (fst (handle GetHealth w)) ''webhooks_received'' =
     Some (JInt (int (length (received_webhooks w)))) \<and>
   json_field (fst (handle GetWebhookReceived w)) ''total_received'' =
     Some (JInt (int (length (received_webhooks w)))) \<and>
   json_field (fst (handle GetHealth w)) ''webhooks_received'' =
     json_field (fst (handle GetWebhookReceived w)) ''total_received''"
  by (simp add: health_check_def get_received_webhooks_def json_field_def dict_get_def)

text \<open>
  C8. The retrieval route and the health route leave the state exactly as it was.
\<close>

theorem reads_leave_state_unchanged:
  "snd (handle GetWebhookReceived w) = w \<and> snd (handle GetHealth w) = w"
  by (simp add: health_check_def get_received_webhooks_def)



subsection \<open>The sample requests, evaluated\<close>

lemma sample_obj_valid:
  "validate_payload sample_env (JObj sample_obj) = Inr sample_payload"
  by (simp add: validate_payload_def str_field_def dict_get_def sample_obj_def sample_payload_def)

lemma second_obj_valid:
  "validate_payload sample_env (JObj second_obj) = Inr second_payload"
  by (simp add: validate_payload_def str_field_def dict_get_def second_obj_def second_payload_def)

lemma blank_obj_valid:
  "validate_payload sample_env (JObj blank_obj) =
     Inr \<lparr>organization_id = [], preassessment_id = ''pa1'', regulation_id = ''reg1''\<rparr>"
  by (simp add: validate_payload_def str_field_def dict_get_def blank_obj_def)



lemma sample_env_raises: "raises sample_env = None"
  by (simp add: sample_env_def)

lemma sample_env_clock:
  "utcnow_isoformat sample_env 1 = ''2024-05-01T10:00:00.000200''"
  "utcnow_isoformat sample_env (Suc 0) = ''2024-05-01T10:00:00.000200''"
  "utcnow_isoformat sample_env 2 = ''2024-05-01T10:00:00.000300''"
  by (simp_all add: sample_env_def sample_clock_def)

subsection \<open>The record invariant\<close>

lemma record_ok_webhook_data: "record_ok (webhook_data t p)"
  by (simp add: record_ok_def record_field_def webhook_data_def dict_get_def is_str_def)

lemma receive_store_cases:
  "received_webhooks (snd (receive_preassessment_webhook e p w)) = received_webhooks w \<or>
   received_webhooks (snd (receive_preassessment_webhook e p w)) =
     received_webhooks w @ [webhook_data (utcnow_isoformat e 1) p]"
proof (cases "raises e")
  case None
  then show ?thesis by (simp add: receive_no_fault)
next
  case (Some f)
  obtain i msg where f: "f = (i, msg)" by (cases f)
  show ?thesis
  proof (cases "i < 13")
    case True
    with Some f show ?thesis by (simp add: receive_fault(2))
  next
    case False
    with Some f show ?thesis by (simp add: receive_late_fault)
  qed
qed

lemma handle_keeps_record_ok:
  assumes "list_all record_ok (received_webhooks w)"
  shows "list_all record_ok (received_webhooks (snd (handle req w)))"
proof (cases req)
  case GetRoot
  with assms show ?thesis by (simp add: root_def)
next
  case (PostWebhookPreassessment e body)
  show ?thesis
  proof (cases "validate_payload e body")
    case (Inl errs)
    with assms PostWebhookPreassessment show ?thesis by simp
  next
    case (Inr p)
    from receive_store_cases [of e p w] assms
    have "list_all record_ok (received_webhooks (snd (receive_preassessment_webhook e p w)))"
      by (auto simp: record_ok_webhook_data)
    with Inr PostWebhookPreassessment show ?thesis by simp
  qed
next
  case GetWebhookReceived
  with assms show ?thesis by (simp add: get_received_webhooks_def)
next
  case DeleteWebhookReceived
  then show ?thesis by (simp add: clear_received_webhooks_def)
next
  case GetHealth
  with assms show ?thesis by (simp add: health_check_def)
qed

lemma run_keeps_record_ok:
  "list_all record_ok (received_webhooks w) \<Longrightarrow>
   list_all record_ok (received_webhooks (run reqs w))"
proof (induction reqs arbitrary: w)
  case Nil
  then show ?case by (simp add: run_def)
next
  case (Cons r reqs)
  from Cons.prems have "list_all record_ok (received_webhooks (snd (handle r w)))"
    by (rule handle_keeps_record_ok)
  then have "list_all record_ok (received_webhooks (run reqs (snd (handle r w))))"
    by (rule Cons.IH)
  then show ?case by (simp add: run_def)
qed

text \<open>
  C4, as the data model words it (identifiers non-empty), fails: the payload model puts
  no length constraint on its fields, so a body whose \<^verbatim>\<open>organization_id\<close> is the empty
  string is accepted and stored.
\<close>

theorem blank_identifier_is_stored:
  "list_all record_nonempty (received_webhooks init_world) \<and>
   status_code (fst (handle (PostWebhookPreassessment sample_env (JObj blank_obj)) init_world)) = 200 \<and>
   \<not> list_all record_nonempty
       (received_webhooks
          (snd (handle (PostWebhookPreassessment sample_env (JObj blank_obj)) init_world)))"
  by (simp add: blank_obj_valid receive_no_fault [OF sample_env_raises]
        init_world_def record_nonempty_def record_field_def webhook_data_def dict_get_def
        nonempty_str_def)

text \<open>
  C4, amended. Every operation keeps this invariant: each stored record holds a string
  (possibly empty) under each of \<^verbatim>\<open>organization_id\<close>, \<^verbatim>\<open>preassessment_id\<close>,
  \<^verbatim>\<open>regulation_id\<close> and \<^verbatim>\<open>timestamp\<close>. It holds in every state that a sequence of
  requests reaches from the empty store.
\<close>

theorem store_records_hold_strings:
  "(list_all record_ok (received_webhooks w) \<longrightarrow>
      list_all record_ok (received_webhooks (snd (handle req w)))) \<and>
   list_all record_ok (received_webhooks (run reqs init_world))"
proof -
  have "list_all record_ok (received_webhooks init_world)"
    by (simp add: init_world_def)
  then have "list_all record_ok (received_webhooks (run reqs init_world))"
    by (rule run_keeps_record_ok)
  then show ?thesis using handle_keeps_record_ok by blast
qed

theorem store_records_hold_strings_witness:
  "list_all record_ok (received_webhooks init_world) \<and>
   list_all record_ok
     (received_webhooks
        (snd (handle (PostWebhookPreassessment sample_env (JObj blank_obj)) init_world))) \<and>
   received_webhooks
     (snd (handle (PostWebhookPreassessment sample_env (JObj blank_obj)) init_world)) \<noteq> []"
proof -
  have h: "list_all record_ok (received_webhooks init_world)"
    by (simp add: init_world_def)
  have n: "received_webhooks
     (snd (handle (PostWebhookPreassessment sample_env (JObj blank_obj)) init_world)) \<noteq> []"
    by (simp add: blank_obj_valid receive_no_fault [OF sample_env_raises])
  from store_records_hold_strings
         [of init_world "PostWebhookPreassessment sample_env (JObj blank_obj)" "[]"] h n
  show ?thesis by blast
qed

subsection \<open>The answer to a post\<close>

lemma post_success_cases:
  assumes "status_code (fst (handle (PostWebhookPreassessment e body) w)) = 200"
  shows "\<exists>p. validate_payload e body = Inr p \<and>
             fst (handle (PostWebhookPreassessment e body) w) =
               JSONResponse 200 (success_body (utcnow_isoformat e 2) p) \<and>
             received_webhooks (snd (handle (PostWebhookPreassessment e body) w)) =
               received_webhooks w @ [webhook_data (utcnow_isoformat e 1) p]"
proof (cases "validate_payload e body")
  case (Inl errs)
  with assms show ?thesis by simp
next
  case (Inr p)
  with assms have "status_code (fst (receive_preassessment_webhook e p w)) = 200" by simp
  from receive_success [OF this] Inr show ?thesis by simp
qed

text \<open>
  C5, as stated, fails: the handler reads the clock once for the stored record (line 79)
  and again for the response (line 94), so the two values differ whenever the clock has
  moved between the two readings.
\<close>

theorem response_time_is_a_later_reading:
  "status_code (fst (handle (PostWebhookPreassessment sample_env (JObj sample_obj)) init_world)) = 200 \<and>
   json_field (fst (handle (PostWebhookPreassessment sample_env (JObj sample_obj)) init_world))
     ''received_at'' = Some (JStr ''2024-05-01T10:00:00.000300'') \<and>
   record_field
     (last (received_webhooks
        (snd (handle (PostWebhookPreassessment sample_env (JObj sample_obj)) init_world))))
     ''timestamp'' = Some (JStr ''2024-05-01T10:00:00.000200'') \<and>
   json_field (fst (handle (PostWebhookPreassessment sample_env (JObj sample_obj)) init_world))
     ''received_at'' \<noteq>
   record_field
     (last (received_webhooks
        (snd (handle (PostWebhookPreassessment sample_env (JObj sample_obj)) init_world))))
     ''timestamp''"
  by (simp add: sample_obj_valid receive_no_fault [OF sample_env_raises] sample_env_clock
        json_field_def record_field_def success_body_def webhook_data_def dict_get_def)

text \<open>
  C5, amended. A post answered 200 passed validation with some payload; the response
  echoes that payload's three fields, and its \<^verbatim>\<open>received_at\<close> is the third clock reading
  of the request, while the record appended by the same request holds the second one:
  the two are equal exactly when those two readings are.
\<close>

theorem success_response_echoes_payload:
  assumes "status_code (fst (handle (PostWebhookPreassessment e body) w)) = 200"
  shows
    "\<exists>p. validate_payload e body = Inr p \<and>
         json_field (fst (handle (PostWebhookPreassessment e body) w)) ''status'' =
           Some (JStr ''success'') \<and>
         json_field (fst (handle (PostWebhookPreassessment e body) w)) ''payload'' =
           Some (JObj [(''organization_id'', JStr (organization_id p)),
                       (''preassessment_id'', JStr (preassessment_id p)),
                       (''regulation_id'', JStr (regulation_id p))]) \<and>
         json_field (fst (handle (PostWebhookPreassessment e body) w)) ''received_at'' =
           Some (JStr (utcnow_isoformat e 2)) \<and>
         received_webhooks (snd (handle (PostWebhookPreassessment e body) w)) =
           received_webhooks w @ [webhook_data (utcnow_isoformat e 1) p] \<and>
         record_field (last (received_webhooks (snd (handle (PostWebhookPreassessment e body) w))))
           ''timestamp'' = Some (JStr (utcnow_isoformat e 1)) \<and>
         (json_field (fst (handle (PostWebhookPreassessment e body) w)) ''received_at'' =
            record_field
              (last (received_webhooks (snd (handle (PostWebhookPreassessment e body) w))))
              ''timestamp'')
           = (utcnow_isoformat e 2 = utcnow_isoformat e 1)"
proof -
  from post_success_cases [OF assms] obtain p where
    v: "validate_payload e body = Inr p" and
    r: "fst (handle (PostWebhookPreassessment e body) w) =
          JSONResponse 200 (success_body (utcnow_isoformat e 2) p)" and
    s: "received_webhooks (snd (handle (PostWebhookPreassessment e body) w)) =
          received_webhooks w @ [webhook_data (utcnow_isoformat e 1) p]"
    by blast
  have "json_field (JSONResponse 200 (success_body (utcnow_isoformat e 2) p)) ''status'' =
          Some (JStr ''success'')"
    and "json_field (JSONResponse 200 (success_body (utcnow_isoformat e 2) p)) ''payload'' =
           Some (JObj [(''organization_id'', JStr (organization_id p)),
                       (''preassessment_id'', JStr (preassessment_id p)),
                       (''regulation_id'', JStr (regulation_id p))])"
    and "json_field (JSONResponse 200 (success_body (utcnow_isoformat e 2) p)) ''received_at'' =
           Some (JStr (utcnow_isoformat e 2))"
    and "record_field (webhook_data (utcnow_isoformat e 1) p) ''timestamp'' =
           Some (JStr (utcnow_isoformat e 1))"
    by (simp_all add: json_field_def record_field_def success_body_def webhook_data_def
          dict_get_def)
  with v show ?thesis unfolding r s by simp
qed

theorem success_response_echoes_payload_witness:
  "status_code (fst (handle (PostWebhookPreassessment sample_env (JObj sample_obj)) init_world)) = 200 \<and>
   json_field (fst (handle (PostWebhookPreassessment sample_env (JObj sample_obj)) init_world))
     ''received_at'' = Some (JStr (utcnow_isoformat sample_env 2)) \<and>
   json_field (fst (handle (PostWebhookPreassessment sample_env (JObj sample_obj)) init_world))
     ''status'' = Some (JStr ''success'')"
proof -
  have h: "status_code
     (fst (handle (PostWebhookPreassessment sample_env (JObj sample_obj)) init_world)) = 200"
    by (simp add: sample_obj_valid receive_no_fault [OF sample_env_raises])
  from success_response_echoes_payload [OF h] h show ?thesis by blast
qed




subsection \<open>Append only\<close>

lemma handle_store_grows:
  assumes "req \<noteq> DeleteWebhookReceived"
  shows "take (length (received_webhooks w)) (received_webhooks (snd (handle req w))) =
           received_webhooks w"
proof (cases req)
  case GetRoot
  then show ?thesis by (simp add: root_def)
next
  case (PostWebhookPreassessment e body)
  then show ?thesis
    by (cases "validate_payload e body") (simp_all add: receive_store_grows)
next
  case GetWebhookReceived
  then show ?thesis by (simp add: get_received_webhooks_def)
next
  case DeleteWebhookReceived
  with assms show ?thesis by simp
next
  case GetHealth
  then show ?thesis by (simp add: health_check_def)
qed

text \<open>
  C9. A post answered 200 leaves the records already stored where they were and puts its
  own record after them; two such posts in a row add their two records in the order of
  the requests, so that from an empty store the retrieval route then returns a total of
  2 and the two records in that order. Every request other than the clear keeps the
  old store as a prefix of the new one.
\<close>

theorem store_is_append_only:
  assumes "validate_payload e1 b1 = Inr p1"
      and "status_code (fst (handle (PostWebhookPreassessment e1 b1) w)) = 200"
      and "validate_payload e2 b2 = Inr p2"
      and "status_code
             (fst (handle (PostWebhookPreassessment e2 b2)
                     (snd (handle (PostWebhookPreassessment e1 b1) w)))) = 200"
  shows
    "received_webhooks (snd (handle (PostWebhookPreassessment e1 b1) w)) =
       received_webhooks w @ [webhook_data (utcnow_isoformat e1 1) p1] \<and>
     received_webhooks
       (snd (handle (PostWebhookPreassessment e2 b2)
               (snd (handle (PostWebhookPreassessment e1 b1) w)))) =
       received_webhooks w @
         [webhook_data (utcnow_isoformat e1 1) p1, webhook_data (utcnow_isoformat e2 1) p2] \<and>
     (received_webhooks w = [] \<longrightarrow>
        fst (handle GetWebhookReceived
               (snd (handle (PostWebhookPreassessment e2 b2)
                       (snd (handle (PostWebhookPreassessment e1 b1) w))))) =
          JSONResponse 200
            (JObj [(''total_received'', JInt 2),
                   (''webhooks'',
                    JArr [webhook_data (utcnow_isoformat e1 1) p1,
                          webhook_data (utcnow_isoformat e2 1) p2])])) \<and>
     (req \<noteq> DeleteWebhookReceived \<longrightarrow>
        take (length (received_webhooks w)) (received_webhooks (snd (handle req w))) =
          received_webhooks w)"
proof -
  let ?w1 = "snd (handle (PostWebhookPreassessment e1 b1) w)"
  let ?w2 = "snd (handle (PostWebhookPreassessment e2 b2) ?w1)"
  from post_success_cases [OF assms(2)] assms(1)
  have s1: "received_webhooks ?w1 =
              received_webhooks w @ [webhook_data (utcnow_isoformat e1 1) p1]"
    by simp
  from post_success_cases [OF assms(4)] assms(3)
  have "received_webhooks ?w2 =
          received_webhooks ?w1 @ [webhook_data (utcnow_isoformat e2 1) p2]"
    by simp
  with s1 have s2: "received_webhooks ?w2 =
      received_webhooks w @
        [webhook_data (utcnow_isoformat e1 1) p1, webhook_data (utcnow_isoformat e2 1) p2]"
    by simp
  have g: "received_webhooks w = [] \<longrightarrow>
        fst (handle GetWebhookReceived ?w2) =
          JSONResponse 200
            (JObj [(''total_received'', JInt 2),
                   (''webhooks'',
                    JArr [webhook_data (utcnow_isoformat e1 1) p1,
                          webhook_data (utcnow_isoformat e2 1) p2])])"
  proof
    assume e: "received_webhooks w = []"
    have "fst (handle GetWebhookReceived ?w2) =
            JSONResponse 200
              (JObj [(''total_received'', JInt (int (length (received_webhooks ?w2)))),
                     (''webhooks'', JArr (received_webhooks ?w2))])"
      by (simp only: handle.simps get_received_webhooks_def fst_conv)
    then show "fst (handle GetWebhookReceived ?w2) =
          JSONResponse 200
            (JObj [(''total_received'', JInt 2),
                   (''webhooks'',
                    JArr [webhook_data (utcnow_isoformat e1 1) p1,
                          webhook_data (utcnow_isoformat e2 1) p2])])"
      by (simp only: s2 e) simp
  qed
  from s1 s2 g handle_store_grows [of req w] show ?thesis by blast
qed

theorem store_is_append_only_witness:
  "validate_payload sample_env (JObj sample_obj) = Inr sample_payload \<and>
   status_code (fst (handle (PostWebhookPreassessment sample_env (JObj sample_obj)) init_world)) = 200 \<and>
   validate_payload sample_env (JObj second_obj) = Inr second_payload \<and>
   status_code
     (fst (handle (PostWebhookPreassessment sample_env (JObj second_obj))
             (snd (handle (PostWebhookPreassessment sample_env (JObj sample_obj)) init_world)))) = 200 \<and>
   received_webhooks init_world = [] \<and>
   GetHealth \<noteq> DeleteWebhookReceived \<and>
   fst (handle GetWebhookReceived
          (snd (handle (PostWebhookPreassessment sample_env (JObj second_obj))
                  (snd (handle (PostWebhookPreassessment sample_env (JObj sample_obj)) init_world))))) =
     JSONResponse 200
       (JObj [(''total_received'', JInt 2),
              (''webhooks'',
               JArr [webhook_data (utcnow_isoformat sample_env 1) sample_payload,
                     webhook_data (utcnow_isoformat sample_env 1) second_payload])]) \<and>
   take (length (received_webhooks init_world))
     (received_webhooks (snd (handle GetHealth init_world))) = received_webhooks init_world"
proof -
  have h2: "status_code
      (fst (handle (PostWebhookPreassessment sample_env (JObj sample_obj)) init_world)) = 200"
    by (simp add: sample_obj_valid receive_no_fault [OF sample_env_raises])
  have h4: "status_code
     (fst (handle (PostWebhookPreassessment sample_env (JObj second_obj))
             (snd (handle (PostWebhookPreassessment sample_env (JObj sample_obj)) init_world)))) = 200"
    by (simp add: second_obj_valid receive_no_fault [OF sample_env_raises])
  have h5: "received_webhooks init_world = []" by (simp add: init_world_def)
  have h6: "GetHealth \<noteq> DeleteWebhookReceived" by simp
  from store_is_append_only [OF sample_obj_valid h2 second_obj_valid h4, of GetHealth]
       sample_obj_valid second_obj_valid h2 h4 h5 h6
  show ?thesis by blast
qed

end
